theory Spec2Isabelle
  imports Main "HOL-Library.Sublist"
begin

section \<open>The batch splicer of prow: prow/cmd/splice/main.go\<close>

text \<open>
  The program assembles the pull requests queued for merge into one batch: it fetches
  them into a scratch git repository, merges them one after the other into a branch
  \<open>batch\<close>, keeps those that merge, and starts the required presubmit jobs for that
  batch unless an identical batch already passed them.

  Everything the program reaches outside of main.go (the git binary, the submit queue's
  HTTP endpoint, the prow job client, the configuration agent, packages plank and kube)
  is a field of an environment record that every effectful function takes as its first
  argument. Logging is left out: it has no influence on any value computed.

  A Go \<open>int\<close> is 64 bits wide. The program does no arithmetic on pull request numbers,
  compares lengths with the batch size, and moves \<open>cooldown\<close> between 5 and 0 only, so
  nothing can overflow and these numbers are integers here.
\<close>

subsection \<open>Data of packages kube and config\<close>

text \<open>
  Modelled from the spec: the declarations of \<open>kube.ProwJob\<close>, \<open>kube.Refs\<close>,
  \<open>kube.Pull\<close> and \<open>config.Presubmit\<close> are not in main.go. The records hold the
  fields main.go reads or writes. The job type and the job state are compared with the
  constants \<open>kube.BatchJob\<close> and \<open>kube.SuccessState\<close> only, so each is a datatype of
  that constant and the others. The method \<open>ProwJob.Complete\<close> reads the field
  \<open>complete\<close> of the spec's job record.
\<close>

datatype ProwJobType = BatchJob | PresubmitJob | PostsubmitJob | PeriodicJob

datatype ProwJobState = TriggeredState | PendingState | SuccessState | FailureState
  | AbortedState | ErrorState

record Pull =
  Number :: int
  SHA :: string

record Refs =
  Org :: string
  Repo :: string
  BaseRef :: string
  BaseSHA :: string
  Pulls :: "Pull list"

record ProwJobSpec =
  Type :: ProwJobType
  Job :: string
  Context :: string
  Refs :: Refs

record ProwJobStatus =
  State :: ProwJobState
  complete :: bool

record ProwJob =
  Spec :: ProwJobSpec
  Status :: ProwJobStatus

record Presubmit =
  Name :: string
  Context :: string
  AlwaysRun :: bool
  SkipReport :: bool

definition Complete :: "ProwJob \<Rightarrow> bool" where
  "Complete j = complete (Status j)"

subsection \<open>The job reconciler\<close>

text \<open>
  \<open>completedJobs\<close>: the loop appends to \<open>skippable\<close> every job that passes the four
  tests. \<open>String\<close> stands for the method \<open>kube.Refs.String\<close>, which is not in
  main.go; \<open>rs\<close> is the string of the batch at hand, computed once before the loop.
\<close>

fun completedJobs_loop ::
  "(Refs \<Rightarrow> string) \<Rightarrow> string \<Rightarrow> ProwJob list \<Rightarrow> ProwJob list \<Rightarrow> ProwJob list" where
  "completedJobs_loop String rs [] skippable = skippable"
| "completedJobs_loop String rs (job # rest) skippable =
     (if Type (Spec job) \<noteq> BatchJob then completedJobs_loop String rs rest skippable
      else if \<not> Complete job then completedJobs_loop String rs rest skippable
      else if State (Status job) \<noteq> SuccessState then completedJobs_loop String rs rest skippable
      else if String (Refs (Spec job)) \<noteq> rs then completedJobs_loop String rs rest skippable
      else completedJobs_loop String rs rest (skippable @ [job]))"

definition completedJobs :: "(Refs \<Rightarrow> string) \<Rightarrow> ProwJob list \<Rightarrow> Refs \<Rightarrow> ProwJob list" where
  "completedJobs String currentJobs refs =
     completedJobs_loop String (String refs) currentJobs []"

fun requiredPresubmits_loop :: "Presubmit list \<Rightarrow> Presubmit list \<Rightarrow> Presubmit list" where
  "requiredPresubmits_loop [] out = out"
| "requiredPresubmits_loop (job # rest) out =
     (if \<not> AlwaysRun job then requiredPresubmits_loop rest out
      else if SkipReport job then requiredPresubmits_loop rest out
      else requiredPresubmits_loop rest (out @ [job]))"

definition requiredPresubmits :: "Presubmit list \<Rightarrow> Presubmit list" where
  "requiredPresubmits presubmits = requiredPresubmits_loop presubmits []"

text \<open>
  The Go map \<open>skippable\<close> of \<open>neededPresubmits\<close> is a partial map; reading a key that
  was never stored gives \<open>false\<close>, the zero value.
\<close>

fun skippable_loop :: "ProwJob list \<Rightarrow> (string \<rightharpoonup> bool) \<Rightarrow> (string \<rightharpoonup> bool)" where
  "skippable_loop [] skippable = skippable"
| "skippable_loop (job # rest) skippable =
     skippable_loop rest (skippable(ProwJobSpec.Context (Spec job) \<mapsto> True))"

definition lookup_bool :: "(string \<rightharpoonup> bool) \<Rightarrow> string \<Rightarrow> bool" where
  "lookup_bool m k = (case m k of None \<Rightarrow> False | Some b \<Rightarrow> b)"

fun neededPresubmits_loop ::
  "(string \<rightharpoonup> bool) \<Rightarrow> Presubmit list \<Rightarrow> Presubmit list \<Rightarrow> Presubmit list" where
  "neededPresubmits_loop skippable [] needed = needed"
| "neededPresubmits_loop skippable (job # rest) needed =
     (if lookup_bool skippable (Presubmit.Context job)
      then neededPresubmits_loop skippable rest needed
      else neededPresubmits_loop skippable rest (needed @ [job]))"

definition neededPresubmits ::
  "(Refs \<Rightarrow> string) \<Rightarrow> Presubmit list \<Rightarrow> ProwJob list \<Rightarrow> Refs \<Rightarrow> Presubmit list" where
  "neededPresubmits String presubmits currentJobs refs =
     neededPresubmits_loop
       (skippable_loop (completedJobs String currentJobs refs) Map.empty)
       (requiredPresubmits presubmits) []"

subsection \<open>The environment\<close>

text \<open>
  A Go \<open>error\<close> is a value with a message. A function that returns \<open>(T, error)\<close>
  returns \<open>error + T\<close> here, and one that returns only an \<open>error\<close> returns
  \<open>error option\<close>, \<open>None\<close> for \<open>nil\<close>.
\<close>

datatype error = Error string

text \<open>
  What the program does to the world outside is recorded, in order, in a trace: every
  process it runs, every request to the submit queue, every listing of prow jobs, every
  prow job it creates.
\<close>

datatype event =
    Exec string "string list"
  | HttpGet string
  | ListProwJobs
  | CreateProwJob ProwJob

record 'w mstate =
  world :: 'w
  trace :: "event list"

text \<open>
  The environment over worlds \<open>'w\<close> and HTTP responses \<open>'r\<close>:
  \<^item> \<open>exec binary args\<close> is \<open>exec.Command(binary, args...).CombinedOutput()\<close>;
  \<^item> \<open>httpGet\<close>, \<open>readAll\<close> and \<open>unmarshal\<close> are \<open>http.Get\<close>,
    \<open>ioutil.ReadAll\<close> of the response body, and \<open>json.Unmarshal\<close> into the queue
    structure, whose entries are the pairs \<open>(Number, BaseRef)\<close>;
  \<^item> \<open>listProwJobs\<close> and \<open>createProwJob\<close> are the two methods of the prow job client;
  \<^item> \<open>presubmitsOf w key\<close> is \<open>ca.Config().Presubmits[key]\<close>, read from the
    configuration the agent holds in world \<open>w\<close>;
  \<^item> \<open>newBatchJob job refs\<close> is \<open>plank.NewProwJob(plank.BatchSpec(job, refs))\<close>;
  \<^item> \<open>refsString\<close> is \<open>kube.Refs.String\<close> and \<open>trimSpace\<close> is
    \<open>strings.TrimSpace\<close>.
\<close>

record ('w, 'r) env =
  exec :: "string \<Rightarrow> string list \<Rightarrow> 'w \<Rightarrow> (string \<times> error option) \<times> 'w"
  httpGet :: "string \<Rightarrow> 'w \<Rightarrow> (error + 'r) \<times> 'w"
  readAll :: "'r \<Rightarrow> 'w \<Rightarrow> (error + string) \<times> 'w"
  unmarshal :: "string \<Rightarrow> error + (int \<times> string) list"
  listProwJobs :: "'w \<Rightarrow> (error + ProwJob list) \<times> 'w"
  createProwJob :: "ProwJob \<Rightarrow> 'w \<Rightarrow> error option \<times> 'w"
  presubmitsOf :: "'w \<Rightarrow> string \<Rightarrow> Presubmit list"
  newBatchJob :: "Presubmit \<Rightarrow> Refs \<Rightarrow> ProwJob"
  refsString :: "Refs \<Rightarrow> string"
  trimSpace :: "string \<Rightarrow> string"

text \<open>The command line flags. \<open>maxBatchSize\<close> is a Go \<open>int\<close> and may be negative.\<close>

record flags =
  submitQueueURL :: string
  remoteURL :: string
  orgName :: string
  repoName :: string
  maxBatchSize :: int

subsection \<open>Formatting a number: the verb \<open>%d\<close> of \<open>fmt.Sprintf\<close>\<close>

fun digits :: "nat \<Rightarrow> string" where
  "digits n =
     (if n < 10 then [''0123456789'' ! n]
      else digits (n div 10) @ [''0123456789'' ! (n mod 10)])"

declare digits.simps [simp del]

definition itoa :: "int \<Rightarrow> string" where
  "itoa i = (if i < 0 then CHR ''-'' # digits (nat (- i)) else digits (nat i))"

subsection \<open>Calling git\<close>

definition call ::
  "('w, 'r) env \<Rightarrow> string \<Rightarrow> string list \<Rightarrow> 'w mstate \<Rightarrow> (string \<times> error option) \<times> 'w mstate" where
  "call env binary args m =
     (case exec env binary args (world m) of
        (res, w') \<Rightarrow> (res, \<lparr>world = w', trace = trace m @ [Exec binary args]\<rparr>))"

record splicer =
  dir :: string

definition gitCall ::
  "('w, 'r) env \<Rightarrow> splicer \<Rightarrow> string list \<Rightarrow> 'w mstate \<Rightarrow> error option \<times> 'w mstate" where
  "gitCall env s args m =
     (case call env ''git'' ([''-C'', dir s] @ args) m of
        ((output, err), m') \<Rightarrow> (err, m'))"

fun gitCalls ::
  "('w, 'r) env \<Rightarrow> splicer \<Rightarrow> string list list \<Rightarrow> 'w mstate \<Rightarrow> error option \<times> 'w mstate" where
  "gitCalls env s [] m = (None, m)"
| "gitCalls env s (args # rest) m =
     (case gitCall env s args m of
        (Some err, m') \<Rightarrow> (Some err, m')
      | (None, m') \<Rightarrow> gitCalls env s rest m')"

subsection \<open>The queue\<close>

fun getQueuedPRs_loop :: "(int \<times> string) list \<Rightarrow> int list \<Rightarrow> int list" where
  "getQueuedPRs_loop [] ret = ret"
| "getQueuedPRs_loop ((number, baseRef) # rest) ret =
     (if baseRef = '''' \<or> baseRef = ''master''
      then getQueuedPRs_loop rest (ret @ [number])
      else getQueuedPRs_loop rest ret)"

definition getQueuedPRs ::
  "('w, 'r) env \<Rightarrow> string \<Rightarrow> 'w mstate \<Rightarrow> (error + int list) \<times> 'w mstate" where
  "getQueuedPRs env url m =
     (case httpGet env url (world m) of
        (Inl err, w1) \<Rightarrow> (Inl err, \<lparr>world = w1, trace = trace m @ [HttpGet url]\<rparr>)
      | (Inr resp, w1) \<Rightarrow>
          (case readAll env resp w1 of
             (Inl err, w2) \<Rightarrow> (Inl err, \<lparr>world = w2, trace = trace m @ [HttpGet url]\<rparr>)
           | (Inr body, w2) \<Rightarrow>
               (case unmarshal env body of
                  Inl err \<Rightarrow> (Inl err, \<lparr>world = w2, trace = trace m @ [HttpGet url]\<rparr>)
                | Inr queue \<Rightarrow>
                    (Inr (getQueuedPRs_loop queue []),
                     \<lparr>world = w2, trace = trace m @ [HttpGet url]\<rparr>))))"

subsection \<open>The merge feasibility engine\<close>

definition fetchArgs :: "string \<Rightarrow> int list \<Rightarrow> string list" where
  "fetchArgs remote prs =
     [''fetch'', ''-f'', remote, ''master:master'']
       @ map (\<lambda>pr. ''pull/'' @ itoa pr @ ''/head:pr/'' @ itoa pr) prs"

definition mergeArgs :: "int \<Rightarrow> string list" where
  "mergeArgs pr =
     [''merge'', ''--no-ff'', ''--no-stat'', ''-m'', ''merge #'' @ itoa pr, ''pr/'' @ itoa pr]"

text \<open>
  The second loop of \<open>findMergeable\<close>: \<open>out\<close> is the list of pull requests merged so far.
\<close>

fun findMergeable_loop ::
  "('w, 'r) env \<Rightarrow> splicer \<Rightarrow> int list \<Rightarrow> int list \<Rightarrow> 'w mstate \<Rightarrow> (error + int list) \<times> 'w mstate" where
  "findMergeable_loop env s [] out m = (Inr out, m)"
| "findMergeable_loop env s (pr # rest) out m =
     (case gitCall env s (mergeArgs pr) m of
        (Some err, m1) \<Rightarrow>
          (case gitCall env s [''merge'', ''--abort''] m1 of
             (Some err', m2) \<Rightarrow> (Inl err', m2)
           | (None, m2) \<Rightarrow> findMergeable_loop env s rest out m2)
      | (None, m1) \<Rightarrow> findMergeable_loop env s rest (out @ [pr]) m1)"

definition resetAndFetch :: "string \<Rightarrow> int list \<Rightarrow> string list list" where
  "resetAndFetch remote prs =
     [[''reset'', ''--hard''],
      [''checkout'', ''--orphan'', ''blank''],
      [''reset'', ''--hard''],
      [''clean'', ''-fdx''],
      fetchArgs remote prs]"

definition findMergeable ::
  "('w, 'r) env \<Rightarrow> splicer \<Rightarrow> string \<Rightarrow> int list \<Rightarrow> 'w mstate \<Rightarrow> (error + int list) \<times> 'w mstate" where
  "findMergeable env s remote prs m =
     (case gitCalls env s
             (resetAndFetch remote prs @ [[''checkout'', ''-B'', ''batch'', ''master'']]) m of
        (Some err, m1) \<Rightarrow> (Inl err, m1)
      | (None, m1) \<Rightarrow> findMergeable_loop env s prs [] m1)"

subsection \<open>The batch reference resolver\<close>

definition gitRef :: "('w, 'r) env \<Rightarrow> splicer \<Rightarrow> string \<Rightarrow> 'w mstate \<Rightarrow> string \<times> 'w mstate" where
  "gitRef env s ref m =
     (case call env ''git'' [''-C'', dir s, ''rev-parse'', ref] m of
        ((output, Some err), m') \<Rightarrow> ('''', m')
      | ((output, None), m') \<Rightarrow> (trimSpace env output, m'))"

fun makeBuildRefs_loop ::
  "('w, 'r) env \<Rightarrow> splicer \<Rightarrow> int list \<Rightarrow> Pull list \<Rightarrow> 'w mstate \<Rightarrow> Pull list \<times> 'w mstate" where
  "makeBuildRefs_loop env s [] pulls m = (pulls, m)"
| "makeBuildRefs_loop env s (pr # rest) pulls m =
     (case gitRef env s (''pr/'' @ itoa pr) m of
        (sha, m') \<Rightarrow>
          makeBuildRefs_loop env s rest (pulls @ [\<lparr>Number = pr, SHA = sha\<rparr>]) m')"

definition makeBuildRefs ::
  "('w, 'r) env \<Rightarrow> splicer \<Rightarrow> string \<Rightarrow> string \<Rightarrow> int list \<Rightarrow> 'w mstate \<Rightarrow> Refs \<times> 'w mstate" where
  "makeBuildRefs env s org repo prs m =
     (case gitRef env s ''master'' m of
        (base, m1) \<Rightarrow>
          (case makeBuildRefs_loop env s prs [] m1 of
             (pulls, m2) \<Rightarrow>
               (\<lparr>Org = org, Repo = repo, BaseRef = ''master'', BaseSHA = base, Pulls = pulls\<rparr>,
                m2)))"

subsection \<open>One tick of the reconciliation loop\<close>

text \<open>The names of the batch jobs that are not complete: the list \<open>running\<close> of \<open>main\<close>.\<close>

fun running_loop :: "ProwJob list \<Rightarrow> string list \<Rightarrow> string list" where
  "running_loop [] running = running"
| "running_loop (job # rest) running =
     (if Type (Spec job) \<noteq> BatchJob then running_loop rest running
      else if \<not> Complete job then running_loop rest (running @ [Job (Spec job)])
      else running_loop rest running)"

text \<open>
  The last loop of \<open>main\<close>: one prow job is created for each needed presubmit; a failure
  is logged and the loop goes on.
\<close>

fun submit_loop ::
  "('w, 'r) env \<Rightarrow> Presubmit list \<Rightarrow> Refs \<Rightarrow> 'w mstate \<Rightarrow> 'w mstate" where
  "submit_loop env [] refs m = m"
| "submit_loop env (job # rest) refs m =
     (case createProwJob env (newBatchJob env job refs) (world m) of
        (err, w') \<Rightarrow>
          submit_loop env rest refs
            \<lparr>world = w', trace = trace m @ [CreateProwJob (newBatchJob env job refs)]\<rparr>)"

text \<open>
  The body of the endless loop of \<open>main\<close>, from the value of \<open>cooldown\<close> and the state
  at the tick. \<open>Continue c\<close> is the end of an iteration with \<open>cooldown = c\<close>;
  \<open>Panic\<close> is the run-time panic of the slice expression \<open>batchPRs[:*maxBatchSize]\<close>
  when the flag is negative.
\<close>

datatype ctl = Continue int | Panic

definition tick ::
  "('w, 'r) env \<Rightarrow> flags \<Rightarrow> splicer \<Rightarrow> int \<Rightarrow> 'w mstate \<Rightarrow> ctl \<times> 'w mstate" where
  "tick env fl splicer cooldown m =
     (case listProwJobs env (world m) of
        (Inl err, w0) \<Rightarrow> (Continue cooldown, \<lparr>world = w0, trace = trace m @ [ListProwJobs]\<rparr>)
      | (Inr currentJobs, w0) \<Rightarrow>
          (let m0 = \<lparr>world = w0, trace = trace m @ [ListProwJobs]\<rparr> in
           if length (running_loop currentJobs []) > 0 then (Continue cooldown, m0)
           else if cooldown > 0 then (Continue (cooldown - 1), m0)
           else
             (case getQueuedPRs env (submitQueueURL fl) m0 of
                (Inl err, m1) \<Rightarrow> (Continue cooldown, m1)
              | (Inr queue, m1) \<Rightarrow>
                  if length queue = 0 then (Continue cooldown, m1)
                  else
                    (case findMergeable env splicer (remoteURL fl) queue m1 of
                       (Inl err, m2) \<Rightarrow> (Continue cooldown, m2)
                     | (Inr batchPRs, m2) \<Rightarrow>
                         if length batchPRs \<le> 1 then (Continue cooldown, m2)
                         else if int (length batchPRs) > maxBatchSize fl \<and> maxBatchSize fl < 0
                         then (Panic, m2)
                         else
                           (let batchPRs' =
                                  (if int (length batchPRs) > maxBatchSize fl
                                   then take (nat (maxBatchSize fl)) batchPRs
                                   else batchPRs)
                            in
                            (case makeBuildRefs env splicer (orgName fl) (repoName fl)
                                    batchPRs' m2 of
                               (refs, m3) \<Rightarrow>
                                 (let presubmits =
                                        presubmitsOf env (world m3)
                                          (orgName fl @ ''/'' @ repoName fl)
                                  in
                                  (Continue 5,
                                   submit_loop env
                                     (neededPresubmits (refsString env) presubmits
                                        currentJobs refs)
                                     refs m3))))))))"

subsection \<open>Observing a trace\<close>

text \<open>The prow jobs a trace creates, in order.\<close>

fun submitted :: "event list \<Rightarrow> ProwJob list" where
  "submitted [] = []"
| "submitted (CreateProwJob j # evs) = j # submitted evs"
| "submitted (ev # evs) = submitted evs"

subsection \<open>A simulated environment\<close>

text \<open>
  A small deterministic environment on which the program can be run: a git repository
  reduced to its branch heads and the name of the branch checked out, whose merges stop
  in a conflict for the branches listed in \<open>sim_conflicts\<close> and whose commands listed in
  \<open>sim_failing\<close> fail outright; a submit queue, a job client and a configuration that
  answer with fixed lists. A merge that succeeds moves the branch checked out to a new
  commit; \<open>merge --abort\<close> succeeds only while a merge is in progress, as git does.
\<close>

record simcfg =
  sim_fetched :: "(string \<times> string) list"
  sim_conflicts :: "string list"
  sim_failing :: "string list list"
  sim_queue :: "(int \<times> string) list"
  sim_jobs :: "ProwJob list"
  sim_presubmits :: "Presubmit list"

record simworld =
  branches :: "(string \<times> string) list"
  current :: string
  merging :: bool

definition sim_ok :: "simworld \<Rightarrow> (string \<times> error option) \<times> simworld" where
  "sim_ok w = (('''', None), w)"

definition sim_fail :: "simworld \<Rightarrow> (string \<times> error option) \<times> simworld" where
  "sim_fail w = ((''fatal'', Some (Error ''exit status 128'')), w)"

definition sim_git ::
  "simcfg \<Rightarrow> string list \<Rightarrow> simworld \<Rightarrow> (string \<times> error option) \<times> simworld" where
  "sim_git cfg cmd w =
     (if cmd = [] \<or> cmd \<in> set (sim_failing cfg) then sim_fail w
      else if hd cmd = ''fetch'' then sim_ok (w\<lparr>branches := sim_fetched cfg\<rparr>)
      else if cmd = [''checkout'', ''--orphan'', ''blank''] then sim_ok (w\<lparr>current := ''blank''\<rparr>)
      else if cmd = [''checkout'', ''-B'', ''batch'', ''master''] then
        (case map_of (branches w) ''master'' of
           None \<Rightarrow> sim_fail w
         | Some sha \<Rightarrow>
             sim_ok (w\<lparr>branches := (''batch'', sha) # branches w, current := ''batch''\<rparr>))
      else if cmd = [''merge'', ''--abort''] then
        (if merging w then sim_ok (w\<lparr>merging := False\<rparr>) else sim_fail w)
      else if hd cmd = ''merge'' then
        (if last cmd \<in> set (sim_conflicts cfg) then sim_fail (w\<lparr>merging := True\<rparr>)
         else
           (case map_of (branches w) (last cmd) of
              None \<Rightarrow> sim_fail w
            | Some sha \<Rightarrow>
                sim_ok (w\<lparr>branches := (current w, ''merge of '' @ sha) # branches w\<rparr>)))
      else if hd cmd = ''rev-parse'' then
        (case map_of (branches w) (last cmd) of
           None \<Rightarrow> sim_fail w
         | Some sha \<Rightarrow> ((sha @ [CHR 0x0A], None), w))
      else sim_ok w)"

definition sim_exec ::
  "simcfg \<Rightarrow> string \<Rightarrow> string list \<Rightarrow> simworld \<Rightarrow> (string \<times> error option) \<times> simworld" where
  "sim_exec cfg binary args w =
     (if binary = ''git'' \<and> take 1 args = [''-C''] then sim_git cfg (drop 2 args) w
      else sim_fail w)"

definition sim_space :: "char \<Rightarrow> bool" where
  "sim_space c \<longleftrightarrow> c = CHR '' '' \<or> c = CHR 0x0A \<or> c = CHR 0x09 \<or> c = CHR 0x0D"

definition sim_trim :: "string \<Rightarrow> string" where
  "sim_trim xs = rev (dropWhile sim_space (rev (dropWhile sim_space xs)))"

text \<open>The commit a branch points to, as \<open>rev-parse\<close> prints it and \<open>sim_trim\<close> reads it.\<close>

definition sim_head :: "simworld \<Rightarrow> string \<Rightarrow> string option" where
  "sim_head w ref = map_option (\<lambda>sha. sim_trim (sha @ [CHR 0x0A])) (map_of (branches w) ref)"

definition sim_string :: "Refs \<Rightarrow> string" where
  "sim_string r =
     BaseRef r @ '':'' @ BaseSHA r
       @ concat (map (\<lambda>p. '','' @ itoa (Number p) @ '':'' @ SHA p) (Pulls r))"

definition sim_job :: "Presubmit \<Rightarrow> Refs \<Rightarrow> ProwJob" where
  "sim_job p r =
     \<lparr>Spec = \<lparr>Type = BatchJob, Job = Name p, Context = Presubmit.Context p, Refs = r\<rparr>,
      Status = \<lparr>State = TriggeredState, complete = False\<rparr>\<rparr>"

definition sim_env :: "simcfg \<Rightarrow> (simworld, string) env" where
  "sim_env cfg =
     \<lparr>exec = sim_exec cfg,
      httpGet = (\<lambda>url w. (Inr url, w)),
      readAll = (\<lambda>resp w. (Inr resp, w)),
      unmarshal = (\<lambda>body. Inr (sim_queue cfg)),
      listProwJobs = (\<lambda>w. (Inr (sim_jobs cfg), w)),
      createProwJob = (\<lambda>job w. (None, w)),
      presubmitsOf = (\<lambda>w key. sim_presubmits cfg),
      newBatchJob = sim_job,
      refsString = sim_string,
      trimSpace = sim_trim\<rparr>"

text \<open>
  The scenario of the specification: the queue holds 101, 102 and 103 (and a pull
  request against another branch); 102 conflicts once 101 is merged.
\<close>

definition cfg1 :: simcfg where
  "cfg1 =
     \<lparr>sim_fetched = [(''master'', ''c0''), (''pr/101'', ''c1''), (''pr/102'', ''c2''),
                     (''pr/103'', ''c3'')],
      sim_conflicts = [''pr/102''],
      sim_failing = [],
      sim_queue = [(101, ''''), (7, ''release-1.5''), (102, ''master''), (103, '''')],
      sim_jobs = [],
      sim_presubmits =
        [\<lparr>Name = ''unit'', Context = ''ci/unit'', AlwaysRun = True, SkipReport = False\<rparr>,
         \<lparr>Name = ''e2e'', Context = ''ci/e2e'', AlwaysRun = True, SkipReport = False\<rparr>,
         \<lparr>Name = ''soak'', Context = ''ci/soak'', AlwaysRun = False, SkipReport = False\<rparr>]\<rparr>"

definition m_init :: "simworld mstate" where
  "m_init = \<lparr>world = \<lparr>branches = [], current = ''master'', merging = False\<rparr>, trace = []\<rparr>"

definition fl1 :: flags where
  "fl1 = \<lparr>submitQueueURL = ''http://sq'', remoteURL = ''origin'', orgName = ''kubernetes'',
          repoName = ''kubernetes'', maxBatchSize = 5\<rparr>"

definition sp1 :: splicer where
  "sp1 = \<lparr>dir = ''/tmp/splice_1''\<rparr>"

text \<open>
  Variants: the merge of 102 fails without starting a merge (as for unrelated
  histories), so that there is nothing to abort; 102 conflicts and the abort fails;
  \<open>rev-parse master\<close> fails; \<open>rev-parse pr/103\<close> fails; 102 and 103 both conflict; a
  batch job is still running.
\<close>

definition cfg_unrelated :: simcfg where
  "cfg_unrelated = cfg1\<lparr>sim_conflicts := [], sim_failing := [mergeArgs 102]\<rparr>"

definition cfg_abort_fails :: simcfg where
  "cfg_abort_fails = cfg1\<lparr>sim_failing := [[''merge'', ''--abort'']]\<rparr>"

definition cfg_norev :: simcfg where
  "cfg_norev = cfg1\<lparr>sim_failing := [[''rev-parse'', ''master'']]\<rparr>"

definition cfg_norev_pr :: simcfg where
  "cfg_norev_pr = cfg1\<lparr>sim_failing := [[''rev-parse'', ''pr/103'']]\<rparr>"

definition cfg_two_conflicts :: simcfg where
  "cfg_two_conflicts = cfg1\<lparr>sim_conflicts := [''pr/102'', ''pr/103'']\<rparr>"

definition refs1 :: Refs where
  "refs1 = \<lparr>Org = ''kubernetes'', Repo = ''kubernetes'', BaseRef = ''master'', BaseSHA = ''c0'',
            Pulls = [\<lparr>Number = 101, SHA = ''c1''\<rparr>, \<lparr>Number = 103, SHA = ''c3''\<rparr>]\<rparr>"

definition refs2 :: Refs where
  "refs2 = refs1\<lparr>Pulls := [\<lparr>Number = 101, SHA = ''c1''\<rparr>, \<lparr>Number = 103, SHA = ''c4''\<rparr>]\<rparr>"

definition job_done :: "string \<Rightarrow> Refs \<Rightarrow> ProwJob" where
  "job_done ctx r =
     \<lparr>Spec = \<lparr>Type = BatchJob, Job = ''batch'', Context = ctx, Refs = r\<rparr>,
      Status = \<lparr>State = SuccessState, complete = True\<rparr>\<rparr>"

definition job_running :: "string \<Rightarrow> Refs \<Rightarrow> ProwJob" where
  "job_running ctx r =
     \<lparr>Spec = \<lparr>Type = BatchJob, Job = ''batch'', Context = ctx, Refs = r\<rparr>,
      Status = \<lparr>State = PendingState, complete = False\<rparr>\<rparr>"

definition cfg_running :: simcfg where
  "cfg_running = cfg1\<lparr>sim_jobs := [job_done ''ci/unit'' refs1, job_running ''ci/e2e'' refs1]\<rparr>"

lemmas sim_defs = sim_env_def sim_exec_def sim_git_def sim_ok_def sim_fail_def sim_trim_def
  sim_space_def sim_string_def sim_job_def cfg1_def m_init_def fl1_def sp1_def
  sim_head_def cfg_unrelated_def cfg_abort_fails_def cfg_norev_def cfg_norev_pr_def cfg_two_conflicts_def refs1_def refs2_def
  job_done_def job_running_def cfg_running_def

lemmas prog_defs = call_def gitCall_def findMergeable_def resetAndFetch_def fetchArgs_def
  mergeArgs_def itoa_def digits.simps gitRef_def makeBuildRefs_def getQueuedPRs_def tick_def
  neededPresubmits_def requiredPresubmits_def completedJobs_def lookup_bool_def Complete_def

section \<open>The job reconciler\<close>

lemma completedJobs_loop_filter:
  "completedJobs_loop String rs jobs acc =
     acc @ filter (\<lambda>job. Type (Spec job) = BatchJob \<and> Complete job
                    \<and> State (Status job) = SuccessState \<and> String (Refs (Spec job)) = rs) jobs"
  by (induction jobs arbitrary: acc) auto

lemma requiredPresubmits_loop_filter:
  "requiredPresubmits_loop ps acc = acc @ filter (\<lambda>p. AlwaysRun p \<and> \<not> SkipReport p) ps"
  by (induction ps arbitrary: acc) auto

lemma lookup_skippable_loop:
  "lookup_bool (skippable_loop js sk) k
     \<longleftrightarrow> lookup_bool sk k \<or> k \<in> ProwJobSpec.Context ` Spec ` set js"
  by (induction js arbitrary: sk) (auto simp: lookup_bool_def)

lemma lookup_bool_empty: "lookup_bool Map.empty k = False"
  by (simp add: lookup_bool_def)

lemma neededPresubmits_loop_filter:
  "neededPresubmits_loop sk ps acc =
     acc @ filter (\<lambda>p. \<not> lookup_bool sk (Presubmit.Context p)) ps"
  by (induction ps arbitrary: acc) auto

lemma completedJobs_eq_filter:
  "completedJobs String currentJobs refs =
     filter (\<lambda>job. Type (Spec job) = BatchJob \<and> Complete job
                  \<and> State (Status job) = SuccessState
                  \<and> String (Refs (Spec job)) = String refs) currentJobs"
  by (simp add: completedJobs_def completedJobs_loop_filter)

lemma neededPresubmits_filter:
  "neededPresubmits String presubmits currentJobs refs =
     filter (\<lambda>p. AlwaysRun p \<and> \<not> SkipReport p
                \<and> Presubmit.Context p \<notin>
                    ProwJobSpec.Context ` Spec ` set (completedJobs String currentJobs refs))
       presubmits"
  by (simp add: neededPresubmits_def requiredPresubmits_def requiredPresubmits_loop_filter
      neededPresubmits_loop_filter lookup_skippable_loop lookup_bool_empty conj_ac)

lemma completedJobs_drop:
  "String (Refs (Spec j)) \<noteq> String refs \<Longrightarrow>
   completedJobs String (js1 @ j # js2) refs = completedJobs String (js1 @ js2) refs"
  by (simp add: completedJobs_eq_filter)

text \<open>
  Claim C3. A job is in the output of \<open>completedJobs\<close> if and only if it is one of the
  current jobs, its type is batch, it is complete, its state is success, and the string
  form of its refs equals the string form of the descriptor. The output is the list of
  those jobs in the order of the input.
\<close>

theorem completedJobs_filter:
  "completedJobs String currentJobs refs =
     filter (\<lambda>job. Type (Spec job) = BatchJob \<and> Complete job
                  \<and> State (Status job) = SuccessState
                  \<and> String (Refs (Spec job)) = String refs) currentJobs
   \<and> (job \<in> set (completedJobs String currentJobs refs) \<longleftrightarrow>
        job \<in> set currentJobs \<and> Type (Spec job) = BatchJob \<and> Complete job
          \<and> State (Status job) = SuccessState
          \<and> String (Refs (Spec job)) = String refs)"
  by (auto simp: completedJobs_eq_filter)

theorem completedJobs_filter_witness:
  "completedJobs sim_string
     [job_done ''ci/unit'' refs1, job_running ''ci/e2e'' refs1, job_done ''ci/e2e'' refs2] refs1
   = [job_done ''ci/unit'' refs1]"
  using completedJobs_filter [of sim_string
      "[job_done ''ci/unit'' refs1, job_running ''ci/e2e'' refs1, job_done ''ci/e2e'' refs2]" refs1]
  by (simp add: sim_defs Complete_def)

text \<open>
  Claim C2. \<open>neededPresubmits\<close> returns exactly the presubmits with \<open>AlwaysRun\<close> and
  without \<open>SkipReport\<close> whose context is not the context of a job of \<open>completedJobs\<close>
  for the descriptor. A job whose refs have another string form than the descriptor
  removes nothing: the result is the same with and without it.
\<close>

theorem neededPresubmits_exact:
  "neededPresubmits String presubmits currentJobs refs =
     filter (\<lambda>p. AlwaysRun p \<and> \<not> SkipReport p
                \<and> Presubmit.Context p \<notin>
                    ProwJobSpec.Context ` Spec ` set (completedJobs String currentJobs refs))
       presubmits
   \<and> (String (Refs (Spec j)) \<noteq> String refs \<longrightarrow>
        neededPresubmits String presubmits (js1 @ j # js2) refs =
          neededPresubmits String presubmits (js1 @ js2) refs)"
  by (simp add: neededPresubmits_filter completedJobs_drop)

theorem neededPresubmits_exact_witness:
  "sim_string (Refs (Spec (job_done ''ci/e2e'' refs2))) \<noteq> sim_string refs1
   \<and> neededPresubmits sim_string (sim_presubmits cfg1)
        ([job_done ''ci/unit'' refs1] @ job_done ''ci/e2e'' refs2 # []) refs1
      = [\<lparr>Name = ''e2e'', Context = ''ci/e2e'', AlwaysRun = True, SkipReport = False\<rparr>]"
proof -
  have ne: "sim_string (Refs (Spec (job_done ''ci/e2e'' refs2))) \<noteq> sim_string refs1"
    by (simp add: sim_defs)
  have run: "neededPresubmits sim_string (sim_presubmits cfg1) ([job_done ''ci/unit'' refs1] @ []) refs1
      = [\<lparr>Name = ''e2e'', Context = ''ci/e2e'', AlwaysRun = True, SkipReport = False\<rparr>]"
    by (simp add: sim_defs prog_defs)
  from neededPresubmits_exact [of sim_string "sim_presubmits cfg1"
        "[job_done ''ci/unit'' refs1] @ []" refs1 "job_done ''ci/e2e'' refs2"
        "[job_done ''ci/unit'' refs1]" "[]"] ne run
  show ?thesis
    by (simp only: simp_thms)
qed

text \<open>
  Claim C10. The list returned by \<open>neededPresubmits\<close> is a subsequence of the configured
  presubmits: every returned presubmit occurs in the input, in the input's order.
\<close>

theorem neededPresubmits_subseq:
  "subseq (neededPresubmits String presubmits currentJobs refs) presubmits
   \<and> set (neededPresubmits String presubmits currentJobs refs) \<subseteq> set presubmits"
  by (simp add: neededPresubmits_filter)

section \<open>The queue\<close>

lemma getQueuedPRs_loop_filter:
  "getQueuedPRs_loop queue ret =
     ret @ map fst (filter (\<lambda>e. snd e = '''' \<or> snd e = ''master'') queue)"
  by (induction queue ret rule: getQueuedPRs_loop.induct) auto

text \<open>
  Claim C8. When the queue is fetched and decoded, the output of \<open>getQueuedPRs\<close> is
  the list of the numbers of exactly those entries whose \<open>BaseRef\<close> is the empty string or
  \<open>master\<close>, in the order of the queue.
\<close>

theorem getQueuedPRs_eligible:
  assumes "httpGet env url (world m) = (Inr resp, w1)"
    and "readAll env resp w1 = (Inr body, w2)"
    and "unmarshal env body = Inr queue"
  shows "fst (getQueuedPRs env url m) =
           Inr (map fst (filter (\<lambda>e. snd e = '''' \<or> snd e = ''master'') queue))"
  using assms by (simp add: getQueuedPRs_def getQueuedPRs_loop_filter)

theorem getQueuedPRs_eligible_witness:
  "fst (getQueuedPRs (sim_env cfg1) ''http://sq'' m_init) = Inr [101, 102, 103]"
proof -
  have a: "httpGet (sim_env cfg1) ''http://sq'' (world m_init) = (Inr ''http://sq'', world m_init)"
    by (simp add: sim_env_def)
  have b: "readAll (sim_env cfg1) ''http://sq'' (world m_init) = (Inr ''http://sq'', world m_init)"
    by (simp add: sim_env_def)
  have c: "unmarshal (sim_env cfg1) ''http://sq''
             = Inr [(101, ''''), (7, ''release-1.5''), (102, ''master''), (103, '''')]"
    by (simp add: sim_env_def cfg1_def)
  from getQueuedPRs_eligible [OF a b c] show ?thesis
    by simp
qed

section \<open>The merge feasibility engine\<close>

lemma findMergeable_loop_subseq:
  "findMergeable_loop env s prs out m = (Inr out', m') \<Longrightarrow>
   \<exists>ys. out' = out @ ys \<and> subseq ys prs"
proof (induction prs arbitrary: out m)
  case Nil
  then show ?case by simp
next
  case (Cons pr rest)
  show ?case
  proof (cases "gitCall env s (mergeArgs pr) m")
    case (Pair err m1)
    show ?thesis
    proof (cases err)
      case None
      with Pair Cons.prems have "findMergeable_loop env s rest (out @ [pr]) m1 = (Inr out', m')"
        by simp
      from Cons.IH [OF this] obtain ys where "out' = (out @ [pr]) @ ys" "subseq ys rest"
        by blast
      then have "out' = out @ (pr # ys) \<and> subseq (pr # ys) (pr # rest)"
        by simp
      then show ?thesis by blast
    next
      case (Some e)
      obtain err' m2 where ab: "gitCall env s [''merge'', ''--abort''] m1 = (err', m2)"
        by (cases "gitCall env s [''merge'', ''--abort''] m1")
      with Pair Some Cons.prems have "findMergeable_loop env s rest out m2 = (Inr out', m')"
        by (cases err') auto
      from Cons.IH [OF this] obtain ys where "out' = out @ ys" "subseq ys rest"
        by blast
      then have "out' = out @ ys \<and> subseq ys (pr # rest)"
        by auto
      then show ?thesis by blast
    qed
  qed
qed

lemma gitCalls_append:
  "gitCalls env s (xs @ ys) m =
     (case gitCalls env s xs m of
        (Some e, m') \<Rightarrow> (Some e, m')
      | (None, m') \<Rightarrow> gitCalls env s ys m')"
  by (induction xs arbitrary: m) (auto split: prod.splits option.splits)

lemma findMergeable_loop_append:
  "findMergeable_loop env s (xs @ ys) out m =
     (case findMergeable_loop env s xs out m of
        (Inl e, m') \<Rightarrow> (Inl e, m')
      | (Inr out', m') \<Rightarrow> findMergeable_loop env s ys out' m')"
  by (induction xs arbitrary: out m) (auto split: prod.splits option.splits sum.splits)

text \<open>
  Claim C1. When \<open>findMergeable\<close> returns a list and no error, the list is a
  subsequence of the candidates: a subset of them in their relative order, of a length
  between 0 and the number of candidates.
\<close>

theorem findMergeable_subseq:
  assumes "findMergeable env s remote prs m = (Inr out, m')"
  shows "subseq out prs \<and> set out \<subseteq> set prs \<and> length out \<le> length prs"
proof -
  from assms obtain m1 where "findMergeable_loop env s prs [] m1 = (Inr out, m')"
    by (auto simp: findMergeable_def split: prod.splits option.splits)
  from findMergeable_loop_subseq [OF this] have sub: "subseq out prs"
    by simp
  moreover from sub have "set out \<subseteq> set prs"
    by (auto dest: list_emb_set)
  moreover from sub have "length out \<le> length prs"
    by (rule list_emb_length)
  ultimately show ?thesis by simp
qed

theorem findMergeable_subseq_witness:
  "fst (findMergeable (sim_env cfg1) sp1 ''origin'' [101, 102, 103] m_init) = Inr [101, 103]
   \<and> subseq [101, 103] [101, 102, 103 :: int]
   \<and> set [101, 103] \<subseteq> set [101, 102, 103 :: int]
   \<and> length [101, 103 :: int] \<le> length [101, 102, 103 :: int]"
proof -
  let ?r = "findMergeable (sim_env cfg1) sp1 ''origin'' [101, 102, 103] m_init"
  have run: "fst ?r = Inr [101, 103]"
    by (simp add: sim_defs prog_defs)
  have "?r = (Inr [101, 103], snd ?r)"
    by (rule prod_eqI) (simp_all only: run fst_conv snd_conv)
  from findMergeable_subseq [OF this] run show ?thesis
    by (simp only: simp_thms)
qed

text \<open>
  Claim C4. (as amended) When the merge of a candidate fails and the \<open>merge --abort\<close>
  that follows succeeds, exactly that candidate is left out: the run goes on with the
  next candidate, from the state after the abort, with the accepted list unchanged, and
  a list it returns is the accepted list followed by a subsequence of the remaining
  candidates.
\<close>

theorem findMergeable_conflict_skips:
  assumes prep: "gitCalls env s
             (resetAndFetch remote (pre @ pr # rest) @ [[''checkout'', ''-B'', ''batch'', ''master'']])
             m = (None, m0)"
    and before: "findMergeable_loop env s pre [] m0 = (Inr acc, m1)"
    and conflict: "gitCall env s (mergeArgs pr) m1 = (Some err, m2)"
    and abort: "gitCall env s [''merge'', ''--abort''] m2 = (None, m3)"
  shows "findMergeable env s remote (pre @ pr # rest) m = findMergeable_loop env s rest acc m3
    \<and> (\<forall>out m'. findMergeable env s remote (pre @ pr # rest) m = (Inr out, m') \<longrightarrow>
          (\<exists>ys. out = acc @ ys \<and> subseq ys rest))"
proof -
  have eq: "findMergeable env s remote (pre @ pr # rest) m = findMergeable_loop env s rest acc m3"
    using assms by (simp add: findMergeable_def findMergeable_loop_append)
  then show ?thesis
    by (auto dest: findMergeable_loop_subseq)
qed

theorem findMergeable_conflict_skips_witness:
  "fst (gitCall (sim_env cfg1) sp1 (mergeArgs 102)
          (snd (findMergeable (sim_env cfg1) sp1 ''origin'' [101] m_init)))
     = Some (Error ''exit status 128'')
   \<and> fst (findMergeable (sim_env cfg1) sp1 ''origin'' ([101] @ 102 # [103]) m_init)
       = Inr [101, 103]"
proof -
  let ?E = "sim_env cfg1"
  let ?cmds = "resetAndFetch ''origin'' ([101] @ 102 # [103])
                 @ [[''checkout'', ''-B'', ''batch'', ''master'']]"
  let ?m0 = "snd (gitCalls ?E sp1 ?cmds m_init)"
  let ?m1 = "snd (findMergeable_loop ?E sp1 [101] [] ?m0)"
  let ?m2 = "snd (gitCall ?E sp1 (mergeArgs 102) ?m1)"
  let ?m3 = "snd (gitCall ?E sp1 [''merge'', ''--abort''] ?m2)"
  have a: "gitCalls ?E sp1 ?cmds m_init = (None, ?m0)"
    by (rule prod_eqI) (simp_all add: sim_defs prog_defs)
  have b: "findMergeable_loop ?E sp1 [101] [] ?m0 = (Inr [101], ?m1)"
    by (rule prod_eqI) (simp_all add: sim_defs prog_defs)
  have c: "gitCall ?E sp1 (mergeArgs 102) ?m1 = (Some (Error ''exit status 128''), ?m2)"
    by (rule prod_eqI) (simp_all add: sim_defs prog_defs)
  have d: "gitCall ?E sp1 [''merge'', ''--abort''] ?m2 = (None, ?m3)"
    by (rule prod_eqI) (simp_all add: sim_defs prog_defs)
  have e: "fst (findMergeable_loop ?E sp1 [103] [101] ?m3) = Inr [101, 103]"
    by (simp add: sim_defs prog_defs)
  have f: "fst (gitCall ?E sp1 (mergeArgs 102)
                  (snd (findMergeable ?E sp1 ''origin'' [101] m_init)))
             = Some (Error ''exit status 128'')"
    by (simp add: sim_defs prog_defs)
  from findMergeable_conflict_skips [OF a b c d] e f show ?thesis
    by (simp only: simp_thms)
qed

text \<open>
  When the \<open>merge --abort\<close> fails too, \<open>findMergeable\<close> returns that error and no list.
  In the two runs below 101 is merged, the merge of 102 fails, the abort fails (in the
  first run although 102 stopped in a conflict, in the second because the merge failed
  before it started and there is nothing to abort), and 103 is never tried.
\<close>

lemma findMergeable_abort_fails:
  assumes prep: "gitCalls env s
             (resetAndFetch remote (pre @ pr # rest) @ [[''checkout'', ''-B'', ''batch'', ''master'']])
             m = (None, m0)"
    and before: "findMergeable_loop env s pre [] m0 = (Inr acc, m1)"
    and conflict: "gitCall env s (mergeArgs pr) m1 = (Some err, m2)"
    and abort: "gitCall env s [''merge'', ''--abort''] m2 = (Some err', m3)"
  shows "findMergeable env s remote (pre @ pr # rest) m = (Inl err', m3)"
  using assms by (simp add: findMergeable_def findMergeable_loop_append)

theorem findMergeable_abort_counterexample:
  "fst (findMergeable (sim_env cfg_abort_fails) sp1 ''origin'' [101, 102, 103] m_init)
     = Inl (Error ''exit status 128'')
   \<and> drop 6 (trace (snd (findMergeable (sim_env cfg_abort_fails) sp1 ''origin''
                           [101, 102, 103] m_init)))
     = [Exec ''git'' ([''-C'', dir sp1] @ mergeArgs 101),
        Exec ''git'' ([''-C'', dir sp1] @ mergeArgs 102),
        Exec ''git'' [''-C'', dir sp1, ''merge'', ''--abort'']]
   \<and> fst (findMergeable (sim_env cfg_unrelated) sp1 ''origin'' [101, 102, 103] m_init)
     = Inl (Error ''exit status 128'')
   \<and> drop 6 (trace (snd (findMergeable (sim_env cfg_unrelated) sp1 ''origin'' [101, 102, 103]
                           m_init)))
     = [Exec ''git'' ([''-C'', dir sp1] @ mergeArgs 101),
        Exec ''git'' ([''-C'', dir sp1] @ mergeArgs 102),
        Exec ''git'' [''-C'', dir sp1, ''merge'', ''--abort'']]"
  by (simp add: sim_defs prog_defs)

section \<open>The reconciliation loop\<close>

lemma submitted_append: "submitted (xs @ ys) = submitted xs @ submitted ys"
  by (induction xs rule: submitted.induct) auto

lemma submitted_call: "submitted (trace (snd (call env b args m))) = submitted (trace m)"
  by (simp add: call_def submitted_append split: prod.splits)

lemma submitted_gitCall: "submitted (trace (snd (gitCall env s args m))) = submitted (trace m)"
proof -
  have "snd (gitCall env s args m) = snd (call env ''git'' ([''-C'', dir s] @ args) m)"
    by (simp add: gitCall_def split: prod.splits)
  then show ?thesis by (simp only: submitted_call)
qed

lemma submitted_gitCalls: "submitted (trace (snd (gitCalls env s argsList m))) = submitted (trace m)"
proof (induction argsList arbitrary: m)
  case Nil
  then show ?case by simp
next
  case (Cons args rest)
  obtain err m1 where g: "gitCall env s args m = (err, m1)"
    by (cases "gitCall env s args m")
  have m1: "submitted (trace m1) = submitted (trace m)"
    using submitted_gitCall [of env s args m] g by simp
  show ?case
    using g m1 Cons.IH [of m1] by (cases err) simp_all
qed

lemma submitted_findMergeable_loop:
  "submitted (trace (snd (findMergeable_loop env s prs out m))) = submitted (trace m)"
proof (induction prs arbitrary: out m)
  case Nil
  then show ?case by simp
next
  case (Cons pr rest)
  obtain err m1 where g: "gitCall env s (mergeArgs pr) m = (err, m1)"
    by (cases "gitCall env s (mergeArgs pr) m")
  have m1: "submitted (trace m1) = submitted (trace m)"
    using submitted_gitCall [of env s "mergeArgs pr" m] g by simp
  obtain err' m2 where a: "gitCall env s [''merge'', ''--abort''] m1 = (err', m2)"
    by (cases "gitCall env s [''merge'', ''--abort''] m1")
  have m2: "submitted (trace m2) = submitted (trace m1)"
    using submitted_gitCall [of env s "[''merge'', ''--abort'']" m1] a by simp
  show ?case
  proof (cases err)
    case None
    then show ?thesis using g m1 Cons.IH [of "out @ [pr]" m1] by simp
  next
    case (Some e)
    then show ?thesis using g a m1 m2 Cons.IH [of out m2] by (cases err') simp_all
  qed
qed

lemma submitted_findMergeable:
  "submitted (trace (snd (findMergeable env s remote prs m))) = submitted (trace m)"
proof -
  let ?cmds = "resetAndFetch remote prs @ [[''checkout'', ''-B'', ''batch'', ''master'']]"
  obtain err m1 where g: "gitCalls env s ?cmds m = (err, m1)"
    by (cases "gitCalls env s ?cmds m")
  have m1: "submitted (trace m1) = submitted (trace m)"
    using submitted_gitCalls [of env s ?cmds m] g by simp
  show ?thesis
    using g m1 submitted_findMergeable_loop [of env s prs "[]" m1]
    by (cases err) (simp_all add: findMergeable_def)
qed

lemma submitted_getQueuedPRs:
  "submitted (trace (snd (getQueuedPRs env url m))) = submitted (trace m)"
  by (simp add: getQueuedPRs_def submitted_append split: prod.splits sum.splits)

lemma running_loop_filter:
  "running_loop jobs running =
     running @ map (\<lambda>job. Job (Spec job))
                 (filter (\<lambda>job. Type (Spec job) = BatchJob \<and> \<not> Complete job) jobs)"
  by (induction jobs arbitrary: running) auto

text \<open>
  Claim C7. In a tick that finds a batch job that is not complete, the program lists the
  prow jobs and does nothing else: the trace grows by the listing alone (no request to the
  queue, no git command, no job created) and \<open>cooldown\<close> keeps its value.
\<close>

theorem tick_single_flight:
  assumes "listProwJobs env (world m) = (Inr currentJobs, w0)"
    and "job \<in> set currentJobs" and "Type (Spec job) = BatchJob" and "\<not> Complete job"
  shows "tick env fl splicer cooldown m =
           (Continue cooldown, \<lparr>world = w0, trace = trace m @ [ListProwJobs]\<rparr>)"
proof -
  from assms(2-4) have "filter (\<lambda>job. Type (Spec job) = BatchJob \<and> \<not> Complete job) currentJobs \<noteq> []"
    by (auto simp: filter_empty_conv)
  then have "length (running_loop currentJobs []) > 0"
    by (simp add: running_loop_filter)
  with assms(1) show ?thesis
    by (simp add: tick_def)
qed

theorem tick_single_flight_witness:
  "tick (sim_env cfg_running) fl1 sp1 3 m_init =
     (Continue 3, \<lparr>world = world m_init, trace = [ListProwJobs]\<rparr>)"
proof -
  have a: "listProwJobs (sim_env cfg_running) (world m_init)
             = (Inr [job_done ''ci/unit'' refs1, job_running ''ci/e2e'' refs1], world m_init)"
    by (simp add: sim_env_def cfg_running_def cfg1_def)
  have b: "job_running ''ci/e2e'' refs1 \<in> set [job_done ''ci/unit'' refs1, job_running ''ci/e2e'' refs1]"
    by simp
  have c: "Type (Spec (job_running ''ci/e2e'' refs1)) = BatchJob"
    by (simp add: job_running_def)
  have d: "\<not> Complete (job_running ''ci/e2e'' refs1)"
    by (simp add: job_running_def Complete_def)
  from tick_single_flight [OF a b c d, of fl1 sp1 3] show ?thesis
    by (simp add: m_init_def)
qed

text \<open>
  Claim C9. In a tick in which \<open>findMergeable\<close> accepts at most one pull request, no prow
  job is created.
\<close>

theorem tick_small_batch:
  assumes "listProwJobs env (world m) = (Inr currentJobs, w0)"
    and "getQueuedPRs env (submitQueueURL fl) \<lparr>world = w0, trace = trace m @ [ListProwJobs]\<rparr>
           = (Inr queue, m1)"
    and "findMergeable env splicer (remoteURL fl) queue m1 = (Inr batchPRs, m2)"
    and "length batchPRs \<le> 1"
  shows "submitted (trace (snd (tick env fl splicer cooldown m))) = submitted (trace m)"
proof -
  let ?m0 = "\<lparr>world = w0, trace = trace m @ [ListProwJobs]\<rparr>"
  have m0: "submitted (trace ?m0) = submitted (trace m)"
    by (simp add: submitted_append)
  have m1: "submitted (trace m1) = submitted (trace m)"
    using submitted_getQueuedPRs [of env "submitQueueURL fl" ?m0] assms(2) m0 by simp
  have m2: "submitted (trace m2) = submitted (trace m)"
    using submitted_findMergeable [of env splicer "remoteURL fl" queue m1] assms(3) m1 by simp
  show ?thesis
    using assms m0 m1 m2 by (simp add: tick_def Let_def)
qed

theorem tick_small_batch_witness:
  "fst (findMergeable (sim_env cfg_two_conflicts) sp1 (remoteURL fl1) [101, 102, 103]
          (snd (getQueuedPRs (sim_env cfg_two_conflicts) (submitQueueURL fl1)
                  \<lparr>world = world m_init, trace = trace m_init @ [ListProwJobs]\<rparr>)))
     = Inr [101]
   \<and> submitted (trace (snd (tick (sim_env cfg_two_conflicts) fl1 sp1 0 m_init))) = []"
proof -
  let ?E = "sim_env cfg_two_conflicts"
  let ?m0 = "\<lparr>world = world m_init, trace = trace m_init @ [ListProwJobs]\<rparr>"
  let ?m1 = "snd (getQueuedPRs ?E (submitQueueURL fl1) ?m0)"
  let ?m2 = "snd (findMergeable ?E sp1 (remoteURL fl1) [101, 102, 103] ?m1)"
  have a: "listProwJobs ?E (world m_init) = (Inr [], world m_init)"
    by (simp add: sim_defs)
  have b: "getQueuedPRs ?E (submitQueueURL fl1) ?m0 = (Inr [101, 102, 103], ?m1)"
    by (rule prod_eqI) (simp_all add: sim_defs prog_defs)
  have c1: "fst (findMergeable ?E sp1 (remoteURL fl1) [101, 102, 103] ?m1) = Inr [101]"
    by (simp add: sim_defs prog_defs)
  have c: "findMergeable ?E sp1 (remoteURL fl1) [101, 102, 103] ?m1 = (Inr [101], ?m2)"
    by (rule prod_eqI) (simp_all only: c1 fst_conv snd_conv)
  have d: "length [101 :: int] \<le> 1"
    by simp
  have e: "submitted (trace m_init) = []"
    by (simp add: m_init_def)
  from tick_small_batch [OF a b c d, of 0] c1 e show ?thesis
    by (simp only: simp_thms)
qed

section \<open>The batch reference resolver\<close>

lemma makeBuildRefs_loop_append:
  "makeBuildRefs_loop env s (xs @ ys) pulls m =
     (case makeBuildRefs_loop env s xs pulls m of
        (pulls', m') \<Rightarrow> makeBuildRefs_loop env s ys pulls' m')"
  by (induction xs arbitrary: pulls m) (auto split: prod.splits)

lemma makeBuildRefs_loop_prefix:
  "\<exists>ps. fst (makeBuildRefs_loop env s prs pulls m) = pulls @ ps \<and> map Number ps = prs"
proof (induction prs arbitrary: pulls m)
  case Nil
  show ?case by simp
next
  case (Cons pr rest)
  obtain sha m' where g: "gitRef env s (''pr/'' @ itoa pr) m = (sha, m')"
    by (cases "gitRef env s (''pr/'' @ itoa pr) m")
  let ?p = "\<lparr>Number = pr, SHA = sha\<rparr>"
  from Cons.IH [of "pulls @ [?p]" m'] obtain ps where
    ps: "fst (makeBuildRefs_loop env s rest (pulls @ [?p]) m') = (pulls @ [?p]) @ ps"
    and n: "map Number ps = rest"
    by (elim exE conjE)
  have step: "makeBuildRefs_loop env s (pr # rest) pulls m
                = makeBuildRefs_loop env s rest (pulls @ [?p]) m'"
    using g by simp
  have a: "fst (makeBuildRefs_loop env s (pr # rest) pulls m) = pulls @ (?p # ps)"
    unfolding step ps by simp
  have b: "map Number (?p # ps) = pr # rest"
    using n by simp
  from a b show ?case
    by (intro exI [of _ "?p # ps"] conjI)
qed

lemma gitRef_failed:
  assumes "snd (fst (call env ''git'' [''-C'', dir s, ''rev-parse'', ref] m)) \<noteq> None"
  shows "fst (gitRef env s ref m) = ''''"
  using assms by (auto simp: gitRef_def split: prod.splits option.splits)

lemma makeBuildRefs_proj:
  "makeBuildRefs env s org repo prs m =
     (\<lparr>Org = org, Repo = repo, BaseRef = ''master'',
       BaseSHA = fst (gitRef env s ''master'' m),
       Pulls = fst (makeBuildRefs_loop env s prs [] (snd (gitRef env s ''master'' m)))\<rparr>,
      snd (makeBuildRefs_loop env s prs [] (snd (gitRef env s ''master'' m))))"
  by (simp add: makeBuildRefs_def split_beta)

lemma makeBuildRefs_loop_numbers:
  "map Number (fst (makeBuildRefs_loop env s prs [] m)) = prs"
proof -
  from makeBuildRefs_loop_prefix [of env s prs "[]" m] obtain ps where
    "fst (makeBuildRefs_loop env s prs [] m) = [] @ ps" and "map Number ps = prs"
    by (elim exE conjE)
  then show ?thesis by simp
qed

lemma makeBuildRefs_loop_nth:
  "fst (makeBuildRefs_loop env s (pre @ pr # rest) [] m) ! length pre =
     \<lparr>Number = pr,
      SHA = fst (gitRef env s (''pr/'' @ itoa pr) (snd (makeBuildRefs_loop env s pre [] m)))\<rparr>"
proof -
  obtain pulls m2 where p: "makeBuildRefs_loop env s pre [] m = (pulls, m2)"
    by (cases "makeBuildRefs_loop env s pre [] m")
  have "map Number pulls = pre"
    using makeBuildRefs_loop_numbers [of env s pre m] p by simp
  then have "length (map Number pulls) = length pre"
    by simp
  then have len: "length pulls = length pre"
    by simp
  obtain sha m3 where g: "gitRef env s (''pr/'' @ itoa pr) m2 = (sha, m3)"
    by (cases "gitRef env s (''pr/'' @ itoa pr) m2")
  from makeBuildRefs_loop_prefix [of env s rest "pulls @ [\<lparr>Number = pr, SHA = sha\<rparr>]" m3]
  obtain ps where
    ps: "fst (makeBuildRefs_loop env s rest (pulls @ [\<lparr>Number = pr, SHA = sha\<rparr>]) m3)
           = (pulls @ [\<lparr>Number = pr, SHA = sha\<rparr>]) @ ps"
    by (elim exE conjE)
  have "fst (makeBuildRefs_loop env s (pre @ pr # rest) [] m)
          = pulls @ \<lparr>Number = pr, SHA = sha\<rparr> # ps"
    using p g ps by (simp add: makeBuildRefs_loop_append)
  then have "fst (makeBuildRefs_loop env s (pre @ pr # rest) [] m) ! length pulls
               = \<lparr>Number = pr, SHA = sha\<rparr>"
    by (simp only: nth_append_length)
  then show ?thesis
    using p g len by simp
qed

text \<open>
  Claim C5. (as amended) \<open>makeBuildRefs\<close> always returns a descriptor, with one pull per
  accepted pull request in order. When resolving the base branch fails, the base SHA of the
  descriptor is the empty string; when resolving the branch of an accepted pull request
  fails, the SHA recorded for that pull request is the empty string.
\<close>

theorem makeBuildRefs_unresolved:
  "(\<exists>r m'. makeBuildRefs env s org repo prs m = (r, m') \<and> Org r = org \<and> Repo r = repo
        \<and> BaseRef r = ''master'' \<and> map Number (Pulls r) = prs)
   \<and> (snd (fst (call env ''git'' [''-C'', dir s, ''rev-parse'', ''master''] m)) \<noteq> None \<longrightarrow>
        BaseSHA (fst (makeBuildRefs env s org repo prs m)) = '''')
   \<and> (snd (fst (call env ''git'' [''-C'', dir s, ''rev-parse'', ''pr/'' @ itoa pr]
                  (snd (makeBuildRefs env s org repo pre m)))) \<noteq> None \<longrightarrow>
        Pulls (fst (makeBuildRefs env s org repo (pre @ pr # rest) m)) ! length pre
          = \<lparr>Number = pr, SHA = ''''\<rparr>)"
proof (intro conjI impI)
  show "\<exists>r m'. makeBuildRefs env s org repo prs m = (r, m') \<and> Org r = org \<and> Repo r = repo
        \<and> BaseRef r = ''master'' \<and> map Number (Pulls r) = prs"
    by (simp add: makeBuildRefs_proj makeBuildRefs_loop_numbers)
next
  assume "snd (fst (call env ''git'' [''-C'', dir s, ''rev-parse'', ''master''] m)) \<noteq> None"
  then have "fst (gitRef env s ''master'' m) = ''''"
    by (rule gitRef_failed)
  then show "BaseSHA (fst (makeBuildRefs env s org repo prs m)) = ''''"
    by (simp add: makeBuildRefs_proj)
next
  assume "snd (fst (call env ''git'' [''-C'', dir s, ''rev-parse'', ''pr/'' @ itoa pr]
                  (snd (makeBuildRefs env s org repo pre m)))) \<noteq> None"
  then have "fst (gitRef env s (''pr/'' @ itoa pr) (snd (makeBuildRefs env s org repo pre m))) = ''''"
    by (rule gitRef_failed)
  then show "Pulls (fst (makeBuildRefs env s org repo (pre @ pr # rest) m)) ! length pre
          = \<lparr>Number = pr, SHA = ''''\<rparr>"
    by (simp add: makeBuildRefs_proj makeBuildRefs_loop_nth)
qed

theorem makeBuildRefs_unresolved_witness:
  "snd (fst (call (sim_env cfg_norev) ''git'' [''-C'', dir sp1, ''rev-parse'', ''master''] m_init))
     \<noteq> None
   \<and> BaseSHA (fst (makeBuildRefs (sim_env cfg_norev) sp1 ''kubernetes'' ''kubernetes'' [101, 103]
                    m_init)) = ''''
   \<and> snd (fst (call (sim_env cfg_norev) ''git'' [''-C'', dir sp1, ''rev-parse'', ''pr/'' @ itoa 103]
              (snd (makeBuildRefs (sim_env cfg_norev) sp1 ''kubernetes'' ''kubernetes'' [101]
                      m_init)))) \<noteq> None
   \<and> Pulls (fst (makeBuildRefs (sim_env cfg_norev) sp1 ''kubernetes'' ''kubernetes''
                   ([101] @ 103 # []) m_init)) ! length [101 :: int]
       = \<lparr>Number = 103, SHA = ''''\<rparr>"
proof -
  let ?E = "sim_env cfg_norev"
  have a: "snd (fst (call ?E ''git'' [''-C'', dir sp1, ''rev-parse'', ''master''] m_init)) \<noteq> None"
    by (simp add: sim_defs prog_defs)
  have b: "snd (fst (call ?E ''git'' [''-C'', dir sp1, ''rev-parse'', ''pr/'' @ itoa 103]
              (snd (makeBuildRefs ?E sp1 ''kubernetes'' ''kubernetes'' [101] m_init)))) \<noteq> None"
    by (simp add: sim_defs prog_defs)
  from makeBuildRefs_unresolved [of ?E sp1 "''kubernetes''" "''kubernetes''" "[101, 103]" m_init
      103 "[101]" "[]"] a b
  show ?thesis
    by (simp only: simp_thms)
qed

theorem makeBuildRefs_unresolved_counterexample:
  "snd (fst (call (sim_env cfg_norev) ''git'' [''-C'', dir sp1, ''rev-parse'', ''master'']
               (snd (findMergeable (sim_env cfg_norev) sp1 ''origin'' [101, 102, 103] m_init))))
     = Some (Error ''exit status 128'')
   \<and> fst (makeBuildRefs (sim_env cfg_norev) sp1 ''kubernetes'' ''kubernetes'' [101, 103]
            (snd (findMergeable (sim_env cfg_norev) sp1 ''origin'' [101, 102, 103] m_init)))
     = refs1\<lparr>BaseSHA := ''''\<rparr>
   \<and> fst (tick (sim_env cfg_norev) fl1 sp1 0 m_init) = Continue 5
   \<and> submitted (trace (snd (tick (sim_env cfg_norev) fl1 sp1 0 m_init)))
     = [sim_job \<lparr>Name = ''unit'', Context = ''ci/unit'', AlwaysRun = True, SkipReport = False\<rparr>
          (refs1\<lparr>BaseSHA := ''''\<rparr>),
        sim_job \<lparr>Name = ''e2e'', Context = ''ci/e2e'', AlwaysRun = True, SkipReport = False\<rparr>
          (refs1\<lparr>BaseSHA := ''''\<rparr>)]"
  by (simp add: sim_defs prog_defs)

lemma world_gitCall:
  "world (snd (gitCall env s args m)) = snd (exec env ''git'' ([''-C'', dir s] @ args) (world m))"
  by (simp add: gitCall_def call_def split_beta)

lemma world_gitRef:
  "world (snd (gitRef env s ref m))
     = snd (exec env ''git'' [''-C'', dir s, ''rev-parse'', ref] (world m))"
  by (simp add: gitRef_def call_def split_beta split: option.splits)

lemma fst_gitCall:
  "fst (gitCall env s args m) = snd (fst (exec env ''git'' ([''-C'', dir s] @ args) (world m)))"
  by (simp add: gitCall_def call_def split_beta)

lemma findMergeable_loop_keeps:
  fixes head :: "'w \<Rightarrow> string \<Rightarrow> string option" and onBatch :: "'w \<Rightarrow> bool"
  assumes merge: "\<And>w pr r w'. onBatch w \<Longrightarrow>
      exec env ''git'' ([''-C'', dir s] @ mergeArgs pr) w = (r, w') \<Longrightarrow>
      onBatch w' \<and> (\<forall>n. head w' (''pr/'' @ itoa n) = head w (''pr/'' @ itoa n))"
    and abort: "\<And>w r w'. onBatch w \<Longrightarrow>
      exec env ''git'' ([''-C'', dir s] @ [''merge'', ''--abort'']) w = (r, w') \<Longrightarrow>
      onBatch w' \<and> (\<forall>n. head w' (''pr/'' @ itoa n) = head w (''pr/'' @ itoa n))"
  shows "onBatch (world m) \<Longrightarrow>
         onBatch (world (snd (findMergeable_loop env s prs out m)))
         \<and> (\<forall>n. head (world (snd (findMergeable_loop env s prs out m))) (''pr/'' @ itoa n)
                 = head (world m) (''pr/'' @ itoa n))"
proof (induction prs arbitrary: out m)
  case Nil
  then show ?case by simp
next
  case (Cons pr rest)
  obtain err m1 where g: "gitCall env s (mergeArgs pr) m = (err, m1)"
    by (cases "gitCall env s (mergeArgs pr) m")
  have w1: "world m1 = snd (exec env ''git'' ([''-C'', dir s] @ mergeArgs pr) (world m))"
    using world_gitCall [of env s "mergeArgs pr" m] g by simp
  have k1: "onBatch (world m1)
            \<and> (\<forall>n. head (world m1) (''pr/'' @ itoa n) = head (world m) (''pr/'' @ itoa n))"
    unfolding w1 by (rule merge [OF Cons.prems]) (rule surjective_pairing)
  obtain err' m2 where a: "gitCall env s [''merge'', ''--abort''] m1 = (err', m2)"
    by (cases "gitCall env s [''merge'', ''--abort''] m1")
  have w2: "world m2 = snd (exec env ''git'' ([''-C'', dir s] @ [''merge'', ''--abort'']) (world m1))"
    using world_gitCall [of env s "[''merge'', ''--abort'']" m1] a by simp
  have k2: "onBatch (world m2)
            \<and> (\<forall>n. head (world m2) (''pr/'' @ itoa n) = head (world m1) (''pr/'' @ itoa n))"
    unfolding w2 using k1 by (intro abort [of "world m1"]) (simp, rule surjective_pairing)
  show ?case
  proof (cases err)
    case None
    from Cons.IH [of m1 "out @ [pr]"] k1
    have "onBatch (world (snd (findMergeable_loop env s rest (out @ [pr]) m1)))
          \<and> (\<forall>n. head (world (snd (findMergeable_loop env s rest (out @ [pr]) m1)))
                    (''pr/'' @ itoa n) = head (world m) (''pr/'' @ itoa n))"
      by simp
    then show ?thesis using g None by simp
  next
    case (Some e)
    show ?thesis
    proof (cases err')
      case None
      from Cons.IH [of m2 out] k1 k2
      have "onBatch (world (snd (findMergeable_loop env s rest out m2)))
            \<and> (\<forall>n. head (world (snd (findMergeable_loop env s rest out m2)))
                      (''pr/'' @ itoa n) = head (world m) (''pr/'' @ itoa n))"
        by simp
      then show ?thesis using g a Some None by simp
    next
      case (Some e')
      then show ?thesis using g a \<open>err = Some e\<close> k1 k2 by simp
    qed
  qed
qed

lemma gitRef_keeps:
  fixes head :: "'w \<Rightarrow> string \<Rightarrow> string option"
  assumes revparse: "\<And>w ref r w'.
      exec env ''git'' [''-C'', dir s, ''rev-parse'', ref] w = (r, w') \<Longrightarrow>
      (\<forall>n. head w' (''pr/'' @ itoa n) = head w (''pr/'' @ itoa n))"
  shows "head (world (snd (gitRef env s ref m))) (''pr/'' @ itoa n)
           = head (world m) (''pr/'' @ itoa n)"
proof -
  have "\<forall>n. head (snd (exec env ''git'' [''-C'', dir s, ''rev-parse'', ref] (world m)))
               (''pr/'' @ itoa n) = head (world m) (''pr/'' @ itoa n)"
    by (rule revparse) (rule surjective_pairing)
  then show ?thesis
    by (simp only: world_gitRef)
qed

lemma makeBuildRefs_loop_keeps:
  fixes head :: "'w \<Rightarrow> string \<Rightarrow> string option"
  assumes revparse: "\<And>w ref r w'.
      exec env ''git'' [''-C'', dir s, ''rev-parse'', ref] w = (r, w') \<Longrightarrow>
      (\<forall>n. head w' (''pr/'' @ itoa n) = head w (''pr/'' @ itoa n))"
  shows "head (world (snd (makeBuildRefs_loop env s prs pulls m))) (''pr/'' @ itoa n)
           = head (world m) (''pr/'' @ itoa n)"
proof (induction prs arbitrary: pulls m)
  case Nil
  then show ?case by simp
next
  case (Cons pr rest)
  obtain sha m1 where g: "gitRef env s (''pr/'' @ itoa pr) m = (sha, m1)"
    by (cases "gitRef env s (''pr/'' @ itoa pr) m")
  have "head (world m1) (''pr/'' @ itoa n) = head (world m) (''pr/'' @ itoa n)"
    using gitRef_keeps [of env s head "''pr/'' @ itoa pr" m n, OF revparse] g by simp
  then show ?case
    using g Cons.IH [of "pulls @ [\<lparr>Number = pr, SHA = sha\<rparr>]" m1] by simp
qed

lemma gitRef_printed:
  assumes "snd (fst (call env ''git'' [''-C'', dir s, ''rev-parse'', ref] m)) = None"
  shows "fst (gitRef env s ref m)
           = trimSpace env (fst (fst (exec env ''git'' [''-C'', dir s, ''rev-parse'', ref] (world m))))"
  using assms by (simp add: gitRef_def call_def split_beta split: option.splits)

text \<open>
  Claim C6. (as amended) Let git behave as documented: a successful
  \<open>checkout -B batch master\<close> leaves \<open>batch\<close> checked out; while \<open>batch\<close> is checked out,
  a \<open>merge\<close> of a pull request and a \<open>merge --abort\<close>, whatever their result, leave it
  checked out; none of these commands, nor \<open>rev-parse\<close>, moves a branch \<open>pr/N\<close>; and a
  successful \<open>rev-parse pr/N\<close> prints the commit that \<open>pr/N\<close> points to. Then, for every
  pull request handed to \<open>makeBuildRefs\<close> after \<open>findMergeable\<close>: if \<open>rev-parse\<close> resolves
  its branch, the SHA recorded for it in the descriptor is the commit its branch pointed
  to right after the fetch, not a merge commit of \<open>batch\<close>; if the resolution fails, the
  SHA recorded is the empty string. Here \<open>head w b\<close> is the commit that branch \<open>b\<close> points
  to in the repository \<open>w\<close>, and \<open>onBatch w\<close> says that \<open>batch\<close> is checked out in \<open>w\<close>.
\<close>

theorem makeBuildRefs_fetched_heads:
  fixes head :: "'w \<Rightarrow> string \<Rightarrow> string option" and onBatch :: "'w \<Rightarrow> bool"
  assumes checkout: "\<And>w out w'.
      exec env ''git'' ([''-C'', dir s] @ [''checkout'', ''-B'', ''batch'', ''master'']) w
        = ((out, None), w') \<Longrightarrow>
      onBatch w' \<and> (\<forall>n. head w' (''pr/'' @ itoa n) = head w (''pr/'' @ itoa n))"
    and merge: "\<And>w pr r w'. onBatch w \<Longrightarrow>
      exec env ''git'' ([''-C'', dir s] @ mergeArgs pr) w = (r, w') \<Longrightarrow>
      onBatch w' \<and> (\<forall>n. head w' (''pr/'' @ itoa n) = head w (''pr/'' @ itoa n))"
    and abort: "\<And>w r w'. onBatch w \<Longrightarrow>
      exec env ''git'' ([''-C'', dir s] @ [''merge'', ''--abort'']) w = (r, w') \<Longrightarrow>
      onBatch w' \<and> (\<forall>n. head w' (''pr/'' @ itoa n) = head w (''pr/'' @ itoa n))"
    and revparse: "\<And>w ref r w'.
      exec env ''git'' [''-C'', dir s, ''rev-parse'', ref] w = (r, w') \<Longrightarrow>
      (\<forall>n. head w' (''pr/'' @ itoa n) = head w (''pr/'' @ itoa n))"
    and printed: "\<And>w n out w'.
      exec env ''git'' [''-C'', dir s, ''rev-parse'', ''pr/'' @ itoa n] w = ((out, None), w') \<Longrightarrow>
      head w (''pr/'' @ itoa n) = Some (trimSpace env out)"
    and fetched: "gitCalls env s (resetAndFetch remote queue) m = (None, mf)"
    and found: "findMergeable env s remote queue m = (Inr out, m')"
  shows "Number (Pulls (fst (makeBuildRefs env s org repo (pre @ pr # rest) m')) ! length pre) = pr
    \<and> (snd (fst (call env ''git'' [''-C'', dir s, ''rev-parse'', ''pr/'' @ itoa pr]
                   (snd (makeBuildRefs env s org repo pre m')))) = None \<longrightarrow>
         head (world mf) (''pr/'' @ itoa pr)
           = Some (SHA (Pulls (fst (makeBuildRefs env s org repo (pre @ pr # rest) m'))
                          ! length pre)))
    \<and> (snd (fst (call env ''git'' [''-C'', dir s, ''rev-parse'', ''pr/'' @ itoa pr]
                   (snd (makeBuildRefs env s org repo pre m')))) \<noteq> None \<longrightarrow>
         SHA (Pulls (fst (makeBuildRefs env s org repo (pre @ pr # rest) m')) ! length pre) = '''')"
proof -
  let ?co = "[''checkout'', ''-B'', ''batch'', ''master'']"
  let ?b = "''pr/'' @ itoa pr"
  let ?mp = "snd (makeBuildRefs env s org repo pre m')"
  let ?p = "Pulls (fst (makeBuildRefs env s org repo (pre @ pr # rest) m')) ! length pre"
  obtain err m0 where c: "gitCall env s ?co mf = (err, m0)"
    by (cases "gitCall env s ?co mf")
  from found fetched c have err: "err = None"
    and loop: "findMergeable_loop env s queue [] m0 = (Inr out, m')"
    by (cases err; simp add: findMergeable_def gitCalls_append)+
  have w0: "world m0 = snd (exec env ''git'' ([''-C'', dir s] @ ?co) (world mf))"
    using world_gitCall [of env s ?co mf] c by simp
  have "snd (fst (exec env ''git'' ([''-C'', dir s] @ ?co) (world mf))) = None"
    using fst_gitCall [of env s ?co mf] c err by simp
  then have "exec env ''git'' ([''-C'', dir s] @ ?co) (world mf)
               = ((fst (fst (exec env ''git'' ([''-C'', dir s] @ ?co) (world mf))), None), world m0)"
    unfolding w0 by (metis surjective_pairing)
  from checkout [OF this]
  have k0: "onBatch (world m0)"
    and h0: "\<And>n. head (world m0) (''pr/'' @ itoa n) = head (world mf) (''pr/'' @ itoa n)"
    by simp_all
  have h1: "head (world m') (''pr/'' @ itoa n) = head (world mf) (''pr/'' @ itoa n)" for n
    using findMergeable_loop_keeps [of onBatch env s head m0 queue "[]", OF merge abort k0]
      loop h0 by simp
  have mp: "?mp = snd (makeBuildRefs_loop env s pre [] (snd (gitRef env s ''master'' m')))"
    by (simp add: makeBuildRefs_proj)
  have h2: "head (world ?mp) ?b = head (world mf) ?b"
    unfolding mp
    using makeBuildRefs_loop_keeps [of env s head pre "[]" "snd (gitRef env s ''master'' m')" pr,
        OF revparse]
      gitRef_keeps [of env s head "''master''" m' pr, OF revparse] h1 [of pr]
    by simp
  have p: "?p = \<lparr>Number = pr, SHA = fst (gitRef env s ?b ?mp)\<rparr>"
    unfolding mp by (simp add: makeBuildRefs_proj makeBuildRefs_loop_nth)
  have ok: "head (world mf) ?b = Some (SHA ?p)"
    if r: "snd (fst (call env ''git'' [''-C'', dir s, ''rev-parse'', ?b] ?mp)) = None"
  proof -
    let ?x = "exec env ''git'' [''-C'', dir s, ''rev-parse'', ?b] (world ?mp)"
    from r have "snd (fst ?x) = None"
      by (simp add: call_def split_beta)
    then have "?x = ((fst (fst ?x), None), snd ?x)"
      by (metis surjective_pairing)
    from printed [OF this] have "head (world ?mp) ?b = Some (trimSpace env (fst (fst ?x)))" .
    then have "head (world ?mp) ?b = Some (fst (gitRef env s ?b ?mp))"
      using gitRef_printed [OF r] by simp
    then show ?thesis
      using h2 p by simp
  qed
  have bad: "SHA ?p = ''''"
    if r: "snd (fst (call env ''git'' [''-C'', dir s, ''rev-parse'', ?b] ?mp)) \<noteq> None"
    using gitRef_failed [OF r] p by simp
  from p ok bad show ?thesis
    by simp
qed

text \<open>
  The simulated git keeps its word: it moves the branch checked out, and only that one.
\<close>

lemmas sim_git_defs = sim_env_def sim_exec_def sim_git_def sim_ok_def sim_fail_def sim_head_def
  cfg1_def

lemma sim_checkout:
  assumes "exec (sim_env cfg1) ''git'' ([''-C'', dir sp1] @ [''checkout'', ''-B'', ''batch'', ''master'']) w
             = ((out, None), w')"
  shows "current w' = ''batch''
         \<and> (\<forall>n. sim_head w' (''pr/'' @ itoa n) = sim_head w (''pr/'' @ itoa n))"
  using assms by (auto simp: sim_git_defs split: option.splits)

lemma sim_merge:
  assumes "current w = ''batch''"
    and "exec (sim_env cfg1) ''git'' ([''-C'', dir sp1] @ mergeArgs pr) w = (r, w')"
  shows "current w' = ''batch''
         \<and> (\<forall>n. sim_head w' (''pr/'' @ itoa n) = sim_head w (''pr/'' @ itoa n))"
  using assms by (auto simp: sim_git_defs mergeArgs_def split: option.splits if_splits)

lemma sim_abort:
  assumes "current w = ''batch''"
    and "exec (sim_env cfg1) ''git'' ([''-C'', dir sp1] @ [''merge'', ''--abort'']) w = (r, w')"
  shows "current w' = ''batch''
         \<and> (\<forall>n. sim_head w' (''pr/'' @ itoa n) = sim_head w (''pr/'' @ itoa n))"
  using assms by (auto simp: sim_git_defs split: option.splits if_splits)

lemma sim_revparse:
  assumes "exec (sim_env cfg1) ''git'' [''-C'', dir sp1, ''rev-parse'', ref] w = (r, w')"
  shows "\<forall>n. sim_head w' (''pr/'' @ itoa n) = sim_head w (''pr/'' @ itoa n)"
  using assms by (auto simp: sim_git_defs split: option.splits if_splits)

lemma sim_printed:
  assumes "exec (sim_env cfg1) ''git'' [''-C'', dir sp1, ''rev-parse'', ''pr/'' @ itoa n] w
             = ((out, None), w')"
  shows "sim_head w (''pr/'' @ itoa n) = Some (trimSpace (sim_env cfg1) out)"
  using assms by (auto simp: sim_git_defs split: option.splits if_splits)

theorem makeBuildRefs_fetched_heads_witness:
  "fst (findMergeable (sim_env cfg1) sp1 ''origin'' [101, 102, 103] m_init) = Inr [101, 103]
   \<and> sim_head (world (snd (findMergeable (sim_env cfg1) sp1 ''origin'' [101, 102, 103] m_init)))
         ''batch'' = Some ''merge of c3''
   \<and> sim_head (world (snd (gitCalls (sim_env cfg1) sp1
                              (resetAndFetch ''origin'' [101, 102, 103]) m_init)))
         (''pr/'' @ itoa 103) = Some ''c3''
   \<and> Pulls (fst (makeBuildRefs (sim_env cfg1) sp1 ''kubernetes'' ''kubernetes''
                   ([101] @ 103 # [])
                   (snd (findMergeable (sim_env cfg1) sp1 ''origin'' [101, 102, 103] m_init))))
         ! length [101 :: int]
       = \<lparr>Number = 103, SHA = ''c3''\<rparr>"
proof -
  let ?E = "sim_env cfg1"
  let ?mf = "snd (gitCalls ?E sp1 (resetAndFetch ''origin'' [101, 102, 103]) m_init)"
  let ?r = "findMergeable ?E sp1 ''origin'' [101, 102, 103] m_init"
  let ?p = "Pulls (fst (makeBuildRefs ?E sp1 ''kubernetes'' ''kubernetes'' ([101] @ 103 # [])
                          (snd ?r))) ! length [101 :: int]"
  have fetched: "gitCalls ?E sp1 (resetAndFetch ''origin'' [101, 102, 103]) m_init = (None, ?mf)"
    by (rule prod_eqI) (simp_all add: sim_defs prog_defs)
  have run: "fst ?r = Inr [101, 103]"
    by (simp add: sim_defs prog_defs)
  have found: "?r = (Inr [101, 103], snd ?r)"
    by (rule prod_eqI) (simp_all only: run fst_conv snd_conv)
  have resolved: "snd (fst (call ?E ''git'' [''-C'', dir sp1, ''rev-parse'', ''pr/'' @ itoa 103]
                     (snd (makeBuildRefs ?E sp1 ''kubernetes'' ''kubernetes'' [101] (snd ?r)))))
                  = None"
    by (simp add: sim_defs prog_defs)
  have head: "sim_head (world ?mf) (''pr/'' @ itoa 103) = Some ''c3''"
    by (simp add: sim_defs prog_defs)
  have batch: "sim_head (world (snd ?r)) ''batch'' = Some ''merge of c3''"
    by (simp add: sim_defs prog_defs)
  from makeBuildRefs_fetched_heads [of ?E sp1 "\<lambda>w. current w = ''batch''" sim_head
      "''origin''" "[101, 102, 103]" m_init ?mf "[101, 103]" "snd ?r"
      "''kubernetes''" "''kubernetes''" "[101]" 103 "[]",
      OF sim_checkout sim_merge sim_abort sim_revparse sim_printed fetched found]
    resolved head
  have "Number ?p = 103 \<and> SHA ?p = ''c3''"
    by simp
  then have "?p = \<lparr>Number = 103, SHA = ''c3''\<rparr>"
    by (cases ?p) simp
  with run batch head show ?thesis
    by (simp only: simp_thms)
qed

text \<open>
  Without the condition that the branch resolves, the SHA recorded need not be the
  fetched head: below 103 is accepted and \<open>pr/103\<close> points to \<open>c3\<close> after the fetch and
  after the merges, but \<open>rev-parse pr/103\<close> fails and the descriptor records the empty
  string for 103.
\<close>

theorem makeBuildRefs_fetched_heads_counterexample:
  "fst (findMergeable (sim_env cfg_norev_pr) sp1 ''origin'' [101, 102, 103] m_init)
     = Inr [101, 103]
   \<and> sim_head (world (snd (gitCalls (sim_env cfg_norev_pr) sp1
                              (resetAndFetch ''origin'' [101, 102, 103]) m_init)))
         ''pr/103'' = Some ''c3''
   \<and> sim_head (world (snd (findMergeable (sim_env cfg_norev_pr) sp1 ''origin'' [101, 102, 103]
                              m_init)))
         ''pr/103'' = Some ''c3''
   \<and> Pulls (fst (makeBuildRefs (sim_env cfg_norev_pr) sp1 ''kubernetes'' ''kubernetes''
                   [101, 103]
                   (snd (findMergeable (sim_env cfg_norev_pr) sp1 ''origin'' [101, 102, 103]
                           m_init))))
       = [\<lparr>Number = 101, SHA = ''c1''\<rparr>, \<lparr>Number = 103, SHA = ''''\<rparr>]"
  by (simp add: sim_defs prog_defs)

end
